theory Spec2Isabelle
  imports Complex_Main "HOL-Library.Sublist" "HOL-Library.Multiset" "HOL-Library.Char_ord"
    "HOL-Library.List_Lexorder"
begin

section \<open>Data model\<close>

text \<open>
  A cell of a result row. The rows are JavaScript objects (\<^verbatim>\<open>Record<string, any>\<close>) that
  arrive as JSON, so a cell is a number, a string or \<^verbatim>\<open>null\<close>; reading a key the object
  does not have gives \<^verbatim>\<open>undefined\<close>. Numbers are modelled as reals (no NaN, no infinities:
  JSON has neither), and arithmetic on them is exact: the rounding and the overflow of the
  runtime's double-precision numbers are not modelled.
\<close>

datatype val = Undefined | Null | Num real | Str string

text \<open>A row object: its own properties in enumeration order.\<close>

type_synonym row = "(string \<times> val) list"

record Column =
  name :: string
  type :: string

text \<open>
  \<^verbatim>\<open>row[key]\<close>: the property's value, \<^verbatim>\<open>undefined\<close> when the row has no such key. The
  keys looked up are column names; a name that \<^verbatim>\<open>Object.prototype\<close> has too (such as
  \<^verbatim>\<open>constructor\<close> or \<^verbatim>\<open>toString\<close>) would find the inherited member in a row without that
  key, and is outside this model.
\<close>

definition get :: "row \<Rightarrow> string \<Rightarrow> val" where
  "get r k = (case map_of r k of None \<Rightarrow> Undefined | Some v \<Rightarrow> v)"

text \<open>\<^verbatim>\<open>v === null || v === undefined\<close>, also \<^verbatim>\<open>v == null\<close>.\<close>

fun nullish :: "val \<Rightarrow> bool" where
  "nullish Undefined = True"
| "nullish Null = True"
| "nullish _ = False"


text \<open>
  \<^verbatim>\<open>String(v)\<close>. The text of a number is the runtime's (\<open>Number::toString\<close>); it is the
  parameter \<open>numStr\<close>.
\<close>

fun String :: "(real \<Rightarrow> string) \<Rightarrow> val \<Rightarrow> string" where
  "String numStr Undefined = ''undefined''"
| "String numStr Null = ''null''"
| "String numStr (Num x) = numStr x"
| "String numStr (Str s) = s"

text \<open>
  The exceptions of the runtime that the modelled code can raise: reading a property of
  \<^verbatim>\<open>null\<close>, and a call with more arguments than the engine accepts.
\<close>

datatype error = TypeError | RangeError

text \<open>\<^verbatim>\<open>xs.slice(s, e)\<close> for indices \<open>0 \<le> s\<close>, \<open>0 \<le> e\<close>: clamped to the array, empty when \<open>e \<le> s\<close>.\<close>

definition slice :: "nat \<Rightarrow> nat \<Rightarrow> 'a list \<Rightarrow> 'a list" where
  "slice s e xs = take (e - s) (drop s xs)"

section \<open>Result table: pagination\<close>

definition pageSize :: nat where
  "pageSize = 25"

definition paginatedData :: "'a list \<Rightarrow> nat \<Rightarrow> 'a list" where
  "paginatedData sortedData page =
     (let start = page * pageSize in slice start (start + pageSize) sortedData)"

text \<open>\<^verbatim>\<open>Math.ceil(filteredData.length / pageSize)\<close>.\<close>

definition totalPages :: "'a list \<Rightarrow> nat" where
  "totalPages filteredData = nat \<lceil>real (length filteredData) / real pageSize\<rceil>"

section \<open>Strings\<close>

text \<open>
  A string is a list of characters; a \<open>char\<close> stands for a code unit below 256 (Latin-1).
  \<^verbatim>\<open>toLowerCase\<close> on these maps A-Z and the accented capitals U+00C0..U+00DE (without the
  multiplication sign U+00D7) 32 places up and leaves every other character alone. Bit 5
  (value 32) is clear in all of these capitals, so adding 32 is setting that bit.
\<close>

definition toLowerChar :: "char \<Rightarrow> char" where
  "toLowerChar c =
     (let n = (of_char c :: nat)
      in if (65 \<le> n \<and> n \<le> 90) \<or> (192 \<le> n \<and> n \<le> 222 \<and> n \<noteq> 215)
         then (case c of Char b0 b1 b2 b3 b4 b5 b6 b7 \<Rightarrow> Char b0 b1 b2 b3 b4 True b6 b7)
         else c)"

definition toLowerCase :: "string \<Rightarrow> string" where
  "toLowerCase s = map toLowerChar s"

text \<open>\<^verbatim>\<open>s.includes(t)\<close>: \<open>t\<close> occurs in \<open>s\<close> as a contiguous run.\<close>

fun includes' :: "string \<Rightarrow> string \<Rightarrow> bool" where
  "includes' [] t = (t = [])"
| "includes' (c # s) t = (prefix t (c # s) \<or> includes' s t)"

text \<open>
  \<^verbatim>\<open>s.trim()\<close> removes white space and line terminators from both ends: tab, line feed,
  vertical tab, form feed, carriage return, space and no-break space among the code units
  below 256.
\<close>

definition isWhiteSpace :: "char \<Rightarrow> bool" where
  "isWhiteSpace c = ((of_char c :: nat) \<in> {9, 10, 11, 12, 13, 32, 160})"

definition trim :: "string \<Rightarrow> string" where
  "trim s = rev (dropWhile isWhiteSpace (rev (dropWhile isWhiteSpace s)))"

text \<open>\<^verbatim>\<open>xs.join(sep)\<close> on an array of strings.\<close>

fun join :: "string \<Rightarrow> string list \<Rightarrow> string" where
  "join sep [] = []"
| "join sep [x] = x"
| "join sep (x # y # ys) = x @ sep @ join sep (y # ys)"

section \<open>Query history ledger\<close>

text \<open>
  What the caller passes to \<^verbatim>\<open>addToHistory\<close>: a \<^verbatim>\<open>QueryHistoryItem\<close> without \<^verbatim>\<open>id\<close> and
  \<^verbatim>\<open>timestamp\<close>. The stored item extends it with both.
\<close>

record QueryMeta =
  question :: string
  rowCount :: real
  executionTime :: real
  confidence :: real

record QueryHistoryItem = QueryMeta +
  id' :: string
  timestamp :: nat

definition MAX_HISTORY :: nat where
  "MAX_HISTORY = 50"

text \<open>
  The hook's state: the \<^verbatim>\<open>history\<close> array and what \<^verbatim>\<open>localStorage\<close> holds under the
  storage key (\<open>None\<close>: no entry).
\<close>

record ledger =
  history :: "QueryHistoryItem list"
  storage :: "string option"

text \<open>
  \<^verbatim>\<open>{...item, id: ..., timestamp: Date.now()}\<close>. The clock reading \<open>now\<close> and the generated
  identifier \<open>newId\<close> come from the environment.
\<close>

definition newItem :: "string \<Rightarrow> nat \<Rightarrow> QueryMeta \<Rightarrow> QueryHistoryItem" where
  "newItem newId now item =
     \<lparr>question = question item, rowCount = rowCount item,
      executionTime = executionTime item, confidence = confidence item,
      id' = newId, timestamp = now\<rparr>"

text \<open>The function given to \<^verbatim>\<open>setHistory\<close> by \<^verbatim>\<open>addToHistory\<close>, from the old array to the new.\<close>

definition updated :: "string \<Rightarrow> nat \<Rightarrow> QueryMeta \<Rightarrow> QueryHistoryItem list \<Rightarrow> QueryHistoryItem list" where
  "updated newId now item prev =
     (let filtered = filter (\<lambda>h. toLowerCase (question h) \<noteq> toLowerCase (question item)) prev
      in slice 0 MAX_HISTORY (newItem newId now item # filtered))"

text \<open>
  The three mutations, with their writes to the store; \<open>stringify\<close> is \<^verbatim>\<open>JSON.stringify\<close>
  on the array.
\<close>

definition addToHistory ::
  "(QueryHistoryItem list \<Rightarrow> string) \<Rightarrow> string \<Rightarrow> nat \<Rightarrow> QueryMeta \<Rightarrow> ledger \<Rightarrow> ledger" where
  "addToHistory stringify newId now item st =
     (let u = updated newId now item (history st)
      in \<lparr>history = u, storage = Some (stringify u)\<rparr>)"

definition removeFromHistory :: "(QueryHistoryItem list \<Rightarrow> string) \<Rightarrow> string \<Rightarrow> ledger \<Rightarrow> ledger" where
  "removeFromHistory stringify i st =
     (let u = filter (\<lambda>h. id' h \<noteq> i) (history st)
      in \<lparr>history = u, storage = Some (stringify u)\<rparr>)"

definition clearHistory :: "ledger \<Rightarrow> ledger" where
  "clearHistory st = \<lparr>history = [], storage = None\<rparr>"

text \<open>A run of the hook: any sequence of the three mutations.\<close>

datatype mutation = Add string nat QueryMeta | Remove string | Clear

fun mutate :: "(QueryHistoryItem list \<Rightarrow> string) \<Rightarrow> ledger \<Rightarrow> mutation \<Rightarrow> ledger" where
  "mutate stringify st (Add newId now item) = addToHistory stringify newId now item st"
| "mutate stringify st (Remove i) = removeFromHistory stringify i st"
| "mutate stringify st Clear = clearHistory st"

definition run :: "(QueryHistoryItem list \<Rightarrow> string) \<Rightarrow> ledger \<Rightarrow> mutation list \<Rightarrow> ledger" where
  "run stringify st ms = foldl (mutate stringify) st ms"

text \<open>Two questions are the same case-insensitively: their lower-case forms are equal.\<close>

definition sameQuestion :: "string \<Rightarrow> QueryHistoryItem \<Rightarrow> bool" where
  "sameQuestion q e = (toLowerCase (question e) = toLowerCase q)"

text \<open>An example ledger at capacity: fifty entries with fifty different questions.\<close>

definition full_ledger :: ledger where
  "full_ledger =
     \<lparr>history = map (\<lambda>n. \<lparr>question = CHR ''q'' # replicate n CHR ''x'', rowCount = 1,
                            executionTime = 2, confidence = 1,
                            id' = replicate n CHR ''i'', timestamp = 100 - n\<rparr>) [0..<50],
      storage = None\<rparr>"

section \<open>Result table: filter and sort\<close>

text \<open>\<^verbatim>\<open>filteredData\<close>: the rows a search term keeps.\<close>

definition filteredData :: "(real \<Rightarrow> string) \<Rightarrow> Column list \<Rightarrow> string \<Rightarrow> row list \<Rightarrow> row list" where
  "filteredData numStr columns searchTerm data =
     (if trim searchTerm = [] then data
      else let term = toLowerCase searchTerm
           in filter (\<lambda>row. list_ex (\<lambda>col. let v = get row (name col)
                                              in \<not> nullish v
                                                 \<and> includes' (toLowerCase (String numStr v)) term)
                                      columns)
                     data)"

datatype SortDirection = Asc | Desc

text \<open>
  The comparison function given to \<^verbatim>\<open>sort\<close>. Its result is a number, of which the sort
  reads the sign. \<open>localeCompare\<close> is the runtime's \<^verbatim>\<open>String.prototype.localeCompare\<close>.
\<close>

definition compareRows ::
  "(real \<Rightarrow> string) \<Rightarrow> (string \<Rightarrow> string \<Rightarrow> real) \<Rightarrow> string \<Rightarrow> SortDirection \<Rightarrow> row \<Rightarrow> row \<Rightarrow> real" where
  "compareRows numStr localeCompare sortColumn sortDirection a b =
     (let aVal = get a sortColumn; bVal = get b sortColumn
      in if aVal = Null \<or> aVal = Undefined then 1
         else if bVal = Null \<or> bVal = Undefined then - 1
         else (case (aVal, bVal) of
                 (Num x, Num y) \<Rightarrow> if sortDirection = Asc then x - y else y - x
               | _ \<Rightarrow>
                   let aStr = String numStr aVal; bStr = String numStr bVal
                   in if sortDirection = Asc then localeCompare aStr bStr
                      else localeCompare bStr aStr))"

text \<open>
  \<^verbatim>\<open>Array.prototype.sort\<close> with a comparison function. The language fixes the result
  only for a comparison that is a consistent order. \<open>compareRows\<close> is not one: two rows
  without a value compare as 1 both ways round, and numbers mixed with text need not
  compare transitively. The order is then the engine's own, so the model is a relation:
  \<open>sort_result cmp xs out\<close> holds of every \<open>out\<close> that a sort may return for \<open>xs\<close>. It
  says what all methods share (insertion, merging, runs): the result rearranges the
  elements, and two elements end side by side only in the order in which a comparison of
  the two put them, so that for each pair of neighbours one of the two calls of the
  comparison agrees with their order. It does not say which of these results an engine
  picks.
\<close>

definition agrees :: "('a \<Rightarrow> 'a \<Rightarrow> real) \<Rightarrow> 'a \<Rightarrow> 'a \<Rightarrow> bool" where
  "agrees cmp a b = (cmp a b \<le> 0 \<or> cmp b a \<ge> 0)"

definition sort_result :: "('a \<Rightarrow> 'a \<Rightarrow> real) \<Rightarrow> 'a list \<Rightarrow> 'a list \<Rightarrow> bool" where
  "sort_result cmp xs out = (mset out = mset xs \<and> successively (agrees cmp) out)"

text \<open>
  \<^verbatim>\<open>sortedData\<close>: \<open>out\<close> is a value it may have. No column (\<^verbatim>\<open>null\<close>, or the empty name,
  which is falsy too) or no direction: the filtered rows as they are, and nothing else.
\<close>

definition sortedData ::
  "(real \<Rightarrow> string) \<Rightarrow> (string \<Rightarrow> string \<Rightarrow> real) \<Rightarrow> string option \<Rightarrow> SortDirection option
     \<Rightarrow> row list \<Rightarrow> row list \<Rightarrow> bool" where
  "sortedData numStr localeCompare sortColumn sortDirection filtered out =
     (case (sortColumn, sortDirection) of
        (Some c, Some d) \<Rightarrow>
          if c = [] then out = filtered
          else sort_result (compareRows numStr localeCompare c d) filtered out
      | _ \<Rightarrow> out = filtered)"







text \<open>A small table for examples: one text column, the last row without a value.\<close>

definition city_columns :: "Column list" where
  "city_columns = [\<lparr>name = ''city'', type = ''dimension''\<rparr>]"

definition city_rows :: "row list" where
  "city_rows = [[(''city'', Str ''Oslo'')], [(''city'', Str ''New York'')], [(''city'', Null)]]"

section \<open>Summary statistics\<close>

text \<open>
  A stat card. The icon is one of the five the component draws. The texts of numbers come
  from the runtime: \<open>toLocaleString\<close> with an optional cap on fraction digits and
  \<open>toFixed\<close> with a digit count are parameters of the functions below.
\<close>

datatype Icon = Hash | Activity | Target | TrendingUp | TrendingDown

datatype Trend = up | down | neutral

record StatCard =
  label :: string
  "value" :: string
  subValue :: "string option"
  icon :: Icon
  trend :: "Trend option"
  color :: string

text \<open>\<^verbatim>\<open>formatNumber\<close>.\<close>

definition formatNumber ::
  "(nat option \<Rightarrow> real \<Rightarrow> string) \<Rightarrow> (nat \<Rightarrow> real \<Rightarrow> string) \<Rightarrow> real \<Rightarrow> string" where
  "formatNumber toLocaleString toFixed v =
     (if \<bar>v\<bar> \<ge> 1000000 then toFixed 1 (v / 1000000) @ ''M''
      else if \<bar>v\<bar> \<ge> 1000 then toFixed 1 (v / 1000) @ ''K''
      else if \<bar>v\<bar> < 1 \<and> v \<noteq> 0 then toFixed 3 v
      else toLocaleString (Some 2) v)"

text \<open>
  \<^verbatim>\<open>formatLabel\<close>: every underscore becomes a space, then every word character
  (letter, digit, underscore) that follows none is put in upper case. On those characters
  \<^verbatim>\<open>toUpperCase\<close> changes a-z only, clearing bit 5.
\<close>

definition isWordChar :: "char \<Rightarrow> bool" where
  "isWordChar c =
     (let n = (of_char c :: nat)
      in (48 \<le> n \<and> n \<le> 57) \<or> (65 \<le> n \<and> n \<le> 90) \<or> n = 95 \<or> (97 \<le> n \<and> n \<le> 122))"

definition toUpperWordChar :: "char \<Rightarrow> char" where
  "toUpperWordChar c =
     (let n = (of_char c :: nat)
      in if 97 \<le> n \<and> n \<le> 122
         then (case c of Char b0 b1 b2 b3 b4 b5 b6 b7 \<Rightarrow> Char b0 b1 b2 b3 b4 False b6 b7)
         else c)"

fun capitalize :: "bool \<Rightarrow> string \<Rightarrow> string" where
  "capitalize afterWord [] = []"
| "capitalize afterWord (c # cs) =
     (if isWordChar c \<and> \<not> afterWord then toUpperWordChar c else c)
       # capitalize (isWordChar c) cs"

definition formatLabel :: "string \<Rightarrow> string" where
  "formatLabel n = capitalize False (map (\<lambda>c. if c = CHR ''_'' then CHR '' '' else c) n)"

text \<open>The numbers of a column: \<^verbatim>\<open>data.map(r => r[col]).filter(v => typeof v === 'number')\<close>.\<close>

definition numbers :: "row list \<Rightarrow> string \<Rightarrow> real list" where
  "numbers data col = concat (map (\<lambda>r. case get r col of Num x \<Rightarrow> [x] | _ \<Rightarrow> []) data)"

text \<open>
  \<^verbatim>\<open>Math.min(...values)\<close> and \<^verbatim>\<open>Math.max(...values)\<close> on a non-empty array. The spread
  passes every element as an argument of the call; an engine accepts only so many
  arguments (\<open>argLimit\<close>, a parameter: it differs between engines) and throws a
  \<^verbatim>\<open>RangeError\<close> beyond.
\<close>

definition Math_min :: "nat \<Rightarrow> real list \<Rightarrow> error + real" where
  "Math_min argLimit values =
     (if length values > argLimit then Inl RangeError
      else Inr (foldl min (hd values) (tl values)))"

definition Math_max :: "nat \<Rightarrow> real list \<Rightarrow> error + real" where
  "Math_max argLimit values =
     (if length values > argLimit then Inl RangeError
      else Inr (foldl max (hd values) (tl values)))"

text \<open>
  The four steps of the card computation, each the cards it pushes. The third can throw
  (the spread), the others cannot.
\<close>

definition rowCountCard :: "(nat option \<Rightarrow> real \<Rightarrow> string) \<Rightarrow> row list \<Rightarrow> StatCard" where
  "rowCountCard toLocaleString data =
     \<lparr>label = ''Total Rows'', value = toLocaleString None (real (length data)),
      subValue = None, icon = Hash, trend = None, color = ''blue''\<rparr>"

definition sumCards ::
  "(nat option \<Rightarrow> real \<Rightarrow> string) \<Rightarrow> (nat \<Rightarrow> real \<Rightarrow> string) \<Rightarrow> row list \<Rightarrow> Column list \<Rightarrow> StatCard list" where
  "sumCards toLocaleString toFixed data measureCols =
     (case measureCols of
        [] \<Rightarrow> []
      | col # _ \<Rightarrow>
          let values = numbers data (name col)
          in if length values > 0
             then let sum = foldl (+) 0 values; avg = sum / real (length values)
                  in [\<lparr>label = ''Total '' @ formatLabel (name col),
                       value = formatNumber toLocaleString toFixed sum,
                       subValue = Some (''Avg: '' @ formatNumber toLocaleString toFixed avg),
                       icon = Activity, trend = None, color = ''green''\<rparr>]
             else [])"

definition avgCards ::
  "nat \<Rightarrow> (nat option \<Rightarrow> real \<Rightarrow> string) \<Rightarrow> (nat \<Rightarrow> real \<Rightarrow> string) \<Rightarrow> row list \<Rightarrow> Column list
     \<Rightarrow> error + StatCard list" where
  "avgCards argLimit toLocaleString toFixed data measureCols =
     (case measureCols of
        _ # col # _ \<Rightarrow>
          let values = numbers data (name col)
          in if length values > 0
             then let avg = foldl (+) 0 values / real (length values)
                  in (case Math_min argLimit values of
                        Inl e \<Rightarrow> Inl e
                      | Inr mn \<Rightarrow>
                          (case Math_max argLimit values of
                             Inl e \<Rightarrow> Inl e
                           | Inr mx \<Rightarrow>
                               Inr [\<lparr>label = ''Avg '' @ formatLabel (name col),
                                     value = formatNumber toLocaleString toFixed avg,
                                     subValue = Some (formatNumber toLocaleString toFixed mn @ '' - ''
                                                      @ formatNumber toLocaleString toFixed mx),
                                     icon = Target, trend = None, color = ''purple''\<rparr>]))
             else Inr []
      | _ \<Rightarrow> Inr [])"

text \<open>
  What stands between the two numbers of the Change card's second line, as the source file
  holds it: a space, the bytes c3 a2 e2 80 a0 e2 80 99 and a space. The bytes encode
  characters beyond the code units of this model (an arrow, U+2192, read in the wrong
  encoding); they are kept as they are in the file.
\<close>

definition arrow :: string where
  "arrow = [CHR 0x20, CHR 0xC3, CHR 0xA2, CHR 0xE2, CHR 0x80, CHR 0xA0, CHR 0xE2, CHR 0x80,
            CHR 0x99, CHR 0x20]"

definition changeCards ::
  "(nat option \<Rightarrow> real \<Rightarrow> string) \<Rightarrow> (nat \<Rightarrow> real \<Rightarrow> string) \<Rightarrow> row list \<Rightarrow> Column list \<Rightarrow> StatCard list" where
  "changeCards toLocaleString toFixed data measureCols =
     (case measureCols of
        [] \<Rightarrow> []
      | col # _ \<Rightarrow>
          if length data \<ge> 2
          then (case (get (data ! 0) (name col), get (data ! (length data - 1)) (name col)) of
                  (Num first, Num last') \<Rightarrow>
                    if first \<noteq> 0
                    then let change = ((last' - first) / \<bar>first\<bar>) * 100
                         in [\<lparr>label = ''Change'',
                              value = (if change \<ge> 0 then ''+'' else '''') @ toFixed 1 change @ ''%'',
                              subValue = Some (formatNumber toLocaleString toFixed first @ arrow
                                               @ formatNumber toLocaleString toFixed last'),
                              icon = (if change \<ge> 0 then TrendingUp else TrendingDown),
                              trend = Some (if change \<ge> 0 then up else down),
                              color = (if change \<ge> 0 then ''green'' else ''red'')\<rparr>]
                    else []
                | _ \<Rightarrow> [])
          else [])"

text \<open>
  The \<^verbatim>\<open>stats\<close> of the \<^verbatim>\<open>SummaryStats\<close> component. An exception in the third step leaves
  the computation at once: no card is returned.
\<close>

definition SummaryStats ::
  "nat \<Rightarrow> (nat option \<Rightarrow> real \<Rightarrow> string) \<Rightarrow> (nat \<Rightarrow> real \<Rightarrow> string) \<Rightarrow> row list \<Rightarrow> Column list
     \<Rightarrow> error + StatCard list" where
  "SummaryStats argLimit toLocaleString toFixed data columns =
     (if length data = 0 \<or> length columns = 0 then Inr []
      else let measureCols = filter (\<lambda>c. type c = ''measure'') columns
           in (case avgCards argLimit toLocaleString toFixed data measureCols of
                 Inl e \<Rightarrow> Inl e
               | Inr avgs \<Rightarrow>
                   let cards = [rowCountCard toLocaleString data]
                               @ sumCards toLocaleString toFixed data measureCols
                               @ avgs
                               @ changeCards toLocaleString toFixed data measureCols
                   in Inr (slice 0 4 cards)))"

text \<open>
  The second measure column holds more numbers than the engine takes as arguments: the
  case in which the spread of the third step throws.
\<close>

definition spreadTooLong :: "nat \<Rightarrow> row list \<Rightarrow> Column list \<Rightarrow> bool" where
  "spreadTooLong argLimit data columns =
     (case filter (\<lambda>c. type c = ''measure'') columns of
        _ # col # _ \<Rightarrow> length (numbers data (name col)) > argLimit
      | _ \<Rightarrow> False)"

section \<open>Export\<close>

text \<open>The three characters that make the CSV export quote a string.\<close>

definition comma :: string where
  "comma = '',''"

definition dquote :: string where
  "dquote = [CHR 0x22]"

definition newline :: string where
  "newline = [CHR 0x0A]"

text \<open>\<^verbatim>\<open>val.replace(/"/g, '""')\<close>.\<close>

definition double_quotes :: "string \<Rightarrow> string" where
  "double_quotes s = concat (map (\<lambda>c. if [c] = dquote then dquote @ dquote else [c]) s)"

text \<open>One cell of the CSV export: the function mapped over the headers of a row.\<close>

definition csvCell :: "(real \<Rightarrow> string) \<Rightarrow> val \<Rightarrow> string" where
  "csvCell numStr val =
     (if val = Null \<or> val = Undefined then []
      else case val of
             Str s \<Rightarrow>
               if includes' s comma \<or> includes' s dquote \<or> includes' s newline
               then dquote @ double_quotes s @ dquote
               else String numStr val
           | _ \<Rightarrow> String numStr val)"

definition csvContent :: "(real \<Rightarrow> string) \<Rightarrow> Column list \<Rightarrow> row list \<Rightarrow> string" where
  "csvContent numStr columns data =
     (let headers = map name columns
      in join newline
           (join comma headers
              # map (\<lambda>row. join comma (map (\<lambda>h. csvCell numStr (get row h)) headers)) data))"

text \<open>
  \<^verbatim>\<open>exportCSV\<close> hands content, file name and type to \<^verbatim>\<open>downloadFile\<close>; the result here
  is that call's arguments.
\<close>

definition exportCSV ::
  "(real \<Rightarrow> string) \<Rightarrow> string \<Rightarrow> Column list \<Rightarrow> row list \<Rightarrow> string \<times> string \<times> string" where
  "exportCSV numStr filename columns data =
     (csvContent numStr columns data, filename @ ''.csv'', ''text/csv'')"

text \<open>
  The CSV rule in the words of the specification, for comparison with \<open>csvCell\<close>:
  a null or undefined value is the empty field; any other value is its string form,
  wrapped in double quotes with the double quotes inside doubled if that form contains a
  comma, a double quote or a newline.
\<close>

definition needs_quoting :: "string \<Rightarrow> bool" where
  "needs_quoting s = (CHR '','' \<in> set s \<or> CHR 0x22 \<in> set s \<or> CHR 0x0A \<in> set s)"

definition spec_csv_field :: "(real \<Rightarrow> string) \<Rightarrow> val \<Rightarrow> string" where
  "spec_csv_field numStr v =
     (if nullish v then []
      else let s = String numStr v
           in if needs_quoting s then dquote @ double_quotes s @ dquote else s)"

text \<open>
  Reading one CSV field back (the repository has no reader; this is the usual one, RFC 4180):
  a field that starts with a double quote runs to the first double quote that is not
  doubled, each doubled one standing for one; any other field is its own text.
\<close>

fun unquote :: "string \<Rightarrow> string" where
  "unquote [] = []"
| "unquote [c] = (if [c] = dquote then [] else [c])"
| "unquote (c # d # cs) =
     (if [c] = dquote then (if [d] = dquote then d # unquote cs else [])
      else c # unquote (d # cs))"

definition read_csv_field :: "string \<Rightarrow> string" where
  "read_csv_field s = (case s of [] \<Rightarrow> [] | c # cs \<Rightarrow> if [c] = dquote then unquote cs else s)"

text \<open>The example value of the specification: \<^verbatim>\<open>Acme, "Inc."\<close>.\<close>

definition acme :: string where
  "acme = ''Acme, '' @ dquote @ ''Inc.'' @ dquote"

text \<open>
  \<^verbatim>\<open>JSON.stringify(data, null, 2)\<close> on an array of row objects. A string is put in
  double quotes; inside, the double quote, the backslash and the control characters are
  escaped (the short escapes where there is one, \<^verbatim>\<open>\u00XX\<close> with lower-case hexadecimal
  digits otherwise).
\<close>

definition backslash :: string where
  "backslash = [CHR 0x5C]"

definition hexDigit :: "nat \<Rightarrow> char" where
  "hexDigit n = ''0123456789abcdef'' ! (n mod 16)"

definition jsonQuoteChar :: "char \<Rightarrow> string" where
  "jsonQuoteChar c =
     (let n = (of_char c :: nat)
      in if n = 8 then backslash @ ''b''
         else if n = 9 then backslash @ ''t''
         else if n = 10 then backslash @ ''n''
         else if n = 12 then backslash @ ''f''
         else if n = 13 then backslash @ ''r''
         else if n = 34 then backslash @ dquote
         else if n = 92 then backslash @ backslash
         else if n < 32 then backslash @ ''u00'' @ [hexDigit (n div 16), hexDigit n]
         else [c])"

definition jsonQuote :: "string \<Rightarrow> string" where
  "jsonQuote s = dquote @ concat (map jsonQuoteChar s) @ dquote"

text \<open>A property whose value is \<^verbatim>\<open>undefined\<close> is left out; \<^verbatim>\<open>null\<close> is written.\<close>

fun jsonValue :: "(real \<Rightarrow> string) \<Rightarrow> val \<Rightarrow> string" where
  "jsonValue numStr Null = ''null''"
| "jsonValue numStr (Num x) = numStr x"
| "jsonValue numStr (Str s) = jsonQuote s"
| "jsonValue numStr Undefined = []"

definition jsonMember :: "(real \<Rightarrow> string) \<Rightarrow> string \<Rightarrow> val \<Rightarrow> string" where
  "jsonMember numStr k v = jsonQuote k @ '': '' @ jsonValue numStr v"

definition jsonMembers :: "(real \<Rightarrow> string) \<Rightarrow> row \<Rightarrow> string list" where
  "jsonMembers numStr r =
     concat (map (\<lambda>(k, v). if v = Undefined then [] else [jsonMember numStr k v]) r)"

text \<open>A row, as an element of the array: one level of indentation (two spaces) deep.\<close>

definition jsonObject :: "(real \<Rightarrow> string) \<Rightarrow> row \<Rightarrow> string" where
  "jsonObject numStr r =
     (let members = jsonMembers numStr r
      in if members = [] then ''{}''
         else ''{'' @ newline @ ''    '' @ join ('','' @ newline @ ''    '') members
              @ newline @ ''  '' @ ''}'')"

definition jsonContent :: "(real \<Rightarrow> string) \<Rightarrow> row list \<Rightarrow> string" where
  "jsonContent numStr data =
     (if data = [] then ''[]''
      else ''['' @ newline @ ''  '' @ join ('','' @ newline @ ''  '') (map (jsonObject numStr) data)
           @ newline @ '']'')"

text \<open>
  \<^verbatim>\<open>exportJSON\<close>: the arguments of its \<^verbatim>\<open>downloadFile\<close> call. The component's \<^verbatim>\<open>columns\<close>
  are in scope and not used.
\<close>

definition exportJSON ::
  "(real \<Rightarrow> string) \<Rightarrow> string \<Rightarrow> Column list \<Rightarrow> row list \<Rightarrow> string \<times> string \<times> string" where
  "exportJSON numStr filename columns data =
     (jsonContent numStr data, filename @ ''.json'', ''application/json'')"

section \<open>Query history ledger: hydration\<close>

text \<open>
  What \<^verbatim>\<open>JSON.parse\<close> can return. The parser itself is the runtime's; it is the parameter
  \<open>JSON_parse\<close> below, \<open>None\<close> standing for the \<^verbatim>\<open>SyntaxError\<close> it throws on text that is
  not JSON.
\<close>

datatype json = JNull | JBool bool | JNum real | JStr string | JArr "json list"
  | JObj "(string \<times> json) list"

text \<open>
  The effect that runs once when the hook mounts: the value of \<^verbatim>\<open>history\<close> after it, from
  what \<^verbatim>\<open>localStorage.getItem\<close> returned (\<open>None\<close> for \<^verbatim>\<open>null\<close>, no entry). The state starts
  as the empty array and stays so when the stored text is missing or empty (both falsy);
  otherwise it becomes whatever the text parses to, or the empty array when parsing throws.
\<close>

definition hydrate :: "(string \<Rightarrow> json option) \<Rightarrow> string option \<Rightarrow> json" where
  "hydrate JSON_parse stored =
     (case stored of
        None \<Rightarrow> JArr []
      | Some s \<Rightarrow>
          if s = [] then JArr []
          else (case JSON_parse s of
                  Some parsed \<Rightarrow> parsed
                | None \<Rightarrow> JArr []))"

text \<open>
  The first thing the \<^verbatim>\<open>QueryHistory\<close> component does with the state is the test
  \<^verbatim>\<open>history.length === 0\<close>. Reading a property of \<^verbatim>\<open>null\<close> throws a \<^verbatim>\<open>TypeError\<close>; a number
  or a boolean has no \<^verbatim>\<open>length\<close>, and \<^verbatim>\<open>undefined === 0\<close> is false.
\<close>

definition historyIsEmpty :: "json \<Rightarrow> error + bool" where
  "historyIsEmpty h =
     (case h of
        JNull \<Rightarrow> Inl TypeError
      | JArr xs \<Rightarrow> Inr (length xs = 0)
      | JStr s \<Rightarrow> Inr (length s = 0)
      | JObj kvs \<Rightarrow> Inr (map_of kvs ''length'' = Some (JNum 0))
      | _ \<Rightarrow> Inr False)"

section \<open>Pagination: proofs\<close>

lemma paginatedData_eq: "paginatedData xs p = take pageSize (drop (p * pageSize) xs)"
  by (simp add: paginatedData_def slice_def Let_def)

lemma concat_pages_take:
  "concat (map (paginatedData xs) [0..<n]) = take (n * pageSize) xs"
proof (induction n)
  case 0
  show ?case by simp
next
  case (Suc n)
  have "take (n * pageSize + pageSize) xs
          = take (n * pageSize) xs @ take pageSize (drop (n * pageSize) xs)"
    by (rule take_add)
  with Suc show ?case
    by (simp add: paginatedData_eq add.commute)
qed

lemma totalPages_div: "totalPages xs = (length xs + 24) div 25"
proof -
  have "\<lceil>real (length xs) / 25\<rceil> = int ((length xs + 24) div 25)"
  proof (rule ceiling_unique)
    have "real (length xs) \<le> 25 * real ((length xs + 24) div 25)"
    proof -
      have "length xs \<le> 25 * ((length xs + 24) div 25)" by arith
      then show ?thesis by (metis of_nat_le_iff of_nat_mult of_nat_numeral)
    qed
    then show "real (length xs) / 25 \<le> real_of_int (int ((length xs + 24) div 25))"
      by simp
    have "25 * ((length xs + 24) div 25) < length xs + 25" by arith
    then have "25 * real ((length xs + 24) div 25) < real (length xs) + 25"
      by (metis of_nat_less_iff of_nat_mult of_nat_numeral of_nat_add)
    then show "real_of_int (int ((length xs + 24) div 25)) - 1 < real (length xs) / 25"
      by simp
  qed
  then show ?thesis by (simp add: totalPages_def pageSize_def)
qed

lemma totalPages_covers: "length xs \<le> totalPages xs * pageSize"
  unfolding totalPages_div pageSize_def by arith

text \<open>
  C7. Concatenating the pages of size 25 for page 0, 1, 2, ... up to the page count (or any
  number of pages beyond it) gives back the whole sequence, so no row is repeated or left
  out; a page that starts past the end is empty; the page count is the length divided by
  25, rounded up.
\<close>

theorem pagination_partition:
  "concat (map (paginatedData xs) [0..<totalPages xs]) = xs
   \<and> (\<forall>n. totalPages xs \<le> n \<longrightarrow> concat (map (paginatedData xs) [0..<n]) = xs)
   \<and> (\<forall>p. length xs \<le> p * pageSize \<longrightarrow> paginatedData xs p = [])
   \<and> totalPages xs = (length xs + 24) div 25
   \<and> real_of_int \<lceil>real (length xs) / 25\<rceil> = real (totalPages xs)"
proof -
  have cover: "\<And>n. totalPages xs \<le> n \<Longrightarrow> length xs \<le> n * pageSize"
    using totalPages_covers [of xs] by (meson le_trans mult_le_mono1)
  have a: "\<And>n. totalPages xs \<le> n \<Longrightarrow> concat (map (paginatedData xs) [0..<n]) = xs"
    using cover by (simp add: concat_pages_take)
  have b: "\<And>p. length xs \<le> p * pageSize \<Longrightarrow> paginatedData xs p = []"
    by (simp add: paginatedData_eq)
  have c: "real_of_int \<lceil>real (length xs) / 25\<rceil> = real (totalPages xs)"
    by (simp add: totalPages_def pageSize_def)
  from a b c show ?thesis
    by (simp add: totalPages_div)
qed

theorem pagination_partition_witness:
  "concat (map (paginatedData [1 ..< 61 :: nat]) [0..<totalPages [1 ..< 61 :: nat]]) = [1 ..< 61]
   \<and> totalPages [1 ..< 61 :: nat] = 3
   \<and> paginatedData [1 ..< 61 :: nat] 2 = [51 ..< 61]
   \<and> paginatedData [1 ..< 61 :: nat] 3 = []"
proof -
  have len: "length [1 ..< 61 :: nat] \<le> 3 * pageSize"
    by (simp add: pageSize_def)
  have tp: "totalPages [1 ..< 61 :: nat] = 3"
    using pagination_partition [of "[1 ..< 61 :: nat]"] by simp
  have p2: "paginatedData [1 ..< 61 :: nat] 2 = [51 ..< 61]"
    by (simp add: paginatedData_eq pageSize_def drop_upt take_upt)
  from pagination_partition [of "[1 ..< 61 :: nat]"] len tp p2 show ?thesis
    by blast
qed

section \<open>Query history ledger: proofs\<close>

lemma updated_Cons:
  "updated newId now item prev =
     newItem newId now item #
       take 49 (filter (\<lambda>h. toLowerCase (question h) \<noteq> toLowerCase (question item)) prev)"
  by (simp add: updated_def slice_def MAX_HISTORY_def)

lemma history_add [simp]:
  "history (addToHistory stringify newId now item st) = updated newId now item (history st)"
  by (simp add: addToHistory_def Let_def)

lemma length_updated: "length (updated newId now item prev) \<le> 50"
  by (simp add: updated_Cons)

lemma length_mutate:
  "length (history st) \<le> 50 \<Longrightarrow> length (history (mutate stringify st m)) \<le> 50"
proof (cases m)
  case (Add newId now item)
  then show ?thesis by (simp add: length_updated)
next
  case (Remove i)
  assume "length (history st) \<le> 50"
  moreover have "length (filter (\<lambda>h. id' h \<noteq> i) (history st)) \<le> length (history st)"
    by (rule length_filter_le)
  ultimately have "length (filter (\<lambda>h. id' h \<noteq> i) (history st)) \<le> 50"
    by (rule le_trans [rotated])
  then show ?thesis using Remove by (simp add: removeFromHistory_def Let_def)
next
  case Clear
  then show ?thesis by (simp add: clearHistory_def)
qed

lemma length_run:
  "length (history st) \<le> 50 \<Longrightarrow> length (history (run stringify st ms)) \<le> 50"
  unfolding run_def
  by (induction ms arbitrary: st) (simp_all add: length_mutate)

text \<open>
  C3. After \<^verbatim>\<open>addToHistory\<close> the history is not empty; exactly one entry has the new
  item's question up to case, it is the entry at index 0, and that entry is the new item:
  the caller's metadata, the clock reading of the call as timestamp and the generated
  identifier. An earlier entry with the same question up to case is gone.
\<close>

theorem addToHistory_moves_to_front:
  "(let h = history (addToHistory stringify newId now item st); same = sameQuestion (question item)
    in h \<noteq> [] \<and> filter same h = [h ! 0]
       \<and> (\<forall>i < length h. same (h ! i) = (i = 0))
       \<and> h ! 0 = newItem newId now item
       \<and> question (h ! 0) = question item \<and> rowCount (h ! 0) = rowCount item
       \<and> executionTime (h ! 0) = executionTime item \<and> confidence (h ! 0) = confidence item
       \<and> timestamp (h ! 0) = now \<and> id' (h ! 0) = newId)"
proof -
  define same where "same = sameQuestion (question item)"
  define h where "h = history (addToHistory stringify newId now item st)"
  let ?rest = "take 49 (filter (\<lambda>e. \<not> same e) (history st))"
  have hh: "h = newItem newId now item # ?rest"
    by (simp add: h_def updated_Cons same_def sameQuestion_def)
  have rest: "\<And>e. e \<in> set ?rest \<Longrightarrow> \<not> same e"
    by (auto dest: in_set_takeD)
  have new: "same (newItem newId now item)"
    by (simp add: same_def newItem_def sameQuestion_def)
  have f: "filter same ?rest = []"
    unfolding filter_empty_conv using rest by blast
  have idx: "\<And>i. i < length h \<Longrightarrow> same (h ! i) = (i = 0)"
  proof -
    fix i assume i: "i < length h"
    show "same (h ! i) = (i = 0)"
    proof (cases i)
      case 0
      then show ?thesis by (simp add: hh new)
    next
      case (Suc j)
      with i have "j < length ?rest" by (simp add: hh)
      then have "?rest ! j \<in> set ?rest" by (rule nth_mem)
      then have "\<not> same (?rest ! j)" by (rule rest)
      then show ?thesis by (simp add: hh Suc)
    qed
  qed
  have fields: "question (h ! 0) = question item \<and> rowCount (h ! 0) = rowCount item
       \<and> executionTime (h ! 0) = executionTime item \<and> confidence (h ! 0) = confidence item
       \<and> timestamp (h ! 0) = now \<and> id' (h ! 0) = newId"
    by (simp add: hh newItem_def)
  have base: "h \<noteq> [] \<and> filter same h = [h ! 0] \<and> h ! 0 = newItem newId now item"
    by (simp add: hh new f)
  have "h \<noteq> [] \<and> filter same h = [h ! 0]
       \<and> (\<forall>i < length h. same (h ! i) = (i = 0))
       \<and> h ! 0 = newItem newId now item
       \<and> question (h ! 0) = question item \<and> rowCount (h ! 0) = rowCount item
       \<and> executionTime (h ! 0) = executionTime item \<and> confidence (h ! 0) = confidence item
       \<and> timestamp (h ! 0) = now \<and> id' (h ! 0) = newId"
    using idx fields base by simp
  then show ?thesis
    unfolding Let_def h_def same_def .
qed

theorem addToHistory_moves_to_front_witness:
  "history (addToHistory (\<lambda>h. []) ''id2'' 2000
              \<lparr>question = ''SHOW SALES'', rowCount = 7, executionTime = 3, confidence = 1\<rparr>
              (addToHistory (\<lambda>h. []) ''id1'' 1000
                 \<lparr>question = ''Show sales'', rowCount = 5, executionTime = 4, confidence = 1\<rparr>
                 \<lparr>history = [], storage = None\<rparr>))
     = [\<lparr>question = ''SHOW SALES'', rowCount = 7, executionTime = 3, confidence = 1,
         id' = ''id2'', timestamp = 2000\<rparr>]"
  using addToHistory_moves_to_front [of "\<lambda>h. []" "''id2''" 2000
      "\<lparr>question = ''SHOW SALES'', rowCount = 7, executionTime = 3, confidence = 1\<rparr>"
      "addToHistory (\<lambda>h. []) ''id1'' 1000
         \<lparr>question = ''Show sales'', rowCount = 5, executionTime = 4, confidence = 1\<rparr>
         \<lparr>history = [], storage = None\<rparr>"]
  by (simp add: updated_Cons newItem_def toLowerCase_def toLowerChar_def)

text \<open>
  C4. After \<^verbatim>\<open>addToHistory\<close> the history has at most 50 entries, whatever it was
  before; a run of additions, removals and clearings from a ledger of at most 50 entries
  never passes 50; and adding a question that no entry has to a ledger of exactly 50
  leaves 50 entries, the new one first and the last (the oldest) dropped.
\<close>

theorem history_capacity:
  "length (history (addToHistory stringify newId now item st)) \<le> 50
   \<and> (length (history st0) \<le> 50 \<longrightarrow> length (history (run stringify st0 ms)) \<le> 50)
   \<and> (length (history st) = 50
        \<and> (\<forall>h \<in> set (history st). toLowerCase (question h) \<noteq> toLowerCase (question item))
      \<longrightarrow> history (addToHistory stringify newId now item st)
            = newItem newId now item # butlast (history st)
          \<and> length (history (addToHistory stringify newId now item st)) = 50)"
proof -
  have evict: "history (addToHistory stringify newId now item st)
            = newItem newId now item # butlast (history st)
          \<and> length (history (addToHistory stringify newId now item st)) = 50"
    if len: "length (history st) = 50"
      and d: "\<forall>h \<in> set (history st). toLowerCase (question h) \<noteq> toLowerCase (question item)"
  proof -
    have "filter (\<lambda>h. toLowerCase (question h) \<noteq> toLowerCase (question item)) (history st)
            = history st"
      using d by (simp add: filter_id_conv)
    moreover have "take 49 (history st) = butlast (history st)"
      using len by (simp add: butlast_conv_take)
    ultimately show ?thesis
      using len by (simp add: updated_Cons)
  qed
  show ?thesis
    using evict by (simp add: length_updated length_run)
qed

theorem history_capacity_witness:
  "length (history full_ledger) = 50
   \<and> history (addToHistory (\<lambda>h. []) ''k'' 500
         \<lparr>question = ''new'', rowCount = 3, executionTime = 1, confidence = 1\<rparr> full_ledger)
       = newItem ''k'' 500 \<lparr>question = ''new'', rowCount = 3, executionTime = 1, confidence = 1\<rparr>
           # butlast (history full_ledger)
   \<and> length (history (addToHistory (\<lambda>h. []) ''k'' 500
         \<lparr>question = ''new'', rowCount = 3, executionTime = 1, confidence = 1\<rparr> full_ledger)) = 50"
proof -
  have len: "length (history full_ledger) = 50"
    by (simp add: full_ledger_def)
  have d: "\<forall>h \<in> set (history full_ledger). toLowerCase (question h)
             \<noteq> toLowerCase (question \<lparr>question = ''new'', rowCount = 3, executionTime = 1, confidence = (1::real)\<rparr>)"
    by (simp add: full_ledger_def toLowerCase_def toLowerChar_def)
  from len d history_capacity [of "\<lambda>h. []" "''k''" 500
      "\<lparr>question = ''new'', rowCount = 3, executionTime = 1, confidence = 1\<rparr>" full_ledger]
  show ?thesis by blast
qed

section \<open>Result table: sort proofs\<close>





















section \<open>Result table: filter proofs\<close>

lemma includes'_iff_sublist: "includes' s t \<longleftrightarrow> sublist t s"
  by (induction s) (simp_all add: sublist_Cons_right)

lemma trim_empty_iff: "trim s = [] \<longleftrightarrow> (\<forall>c \<in> set s. isWhiteSpace c)"
proof -
  define d where "d = dropWhile isWhiteSpace s"
  have "(\<forall>c \<in> set d. isWhiteSpace c) \<longleftrightarrow> d = []"
  proof
    assume all: "\<forall>c \<in> set d. isWhiteSpace c"
    show "d = []"
    proof (rule ccontr)
      assume ne: "d \<noteq> []"
      then have "\<not> isWhiteSpace (hd d)"
        unfolding d_def by (rule hd_dropWhile)
      moreover have "hd d \<in> set d" using ne by simp
      ultimately show False using all by blast
    qed
  qed simp
  moreover have "trim s = [] \<longleftrightarrow> (\<forall>c \<in> set d. isWhiteSpace c)"
    by (simp add: trim_def d_def dropWhile_eq_Nil_conv)
  moreover have "d = [] \<longleftrightarrow> (\<forall>c \<in> set s. isWhiteSpace c)"
    by (simp add: d_def dropWhile_eq_Nil_conv)
  ultimately show ?thesis by blast
qed

text \<open>
  C10. A search term made of white space only (the empty term too) keeps all rows, in
  their order. A term with any other character keeps the rows in which some declared
  column has a value, not null or undefined, whose lower-cased string form contains the
  lower-cased term as it was typed, white space at its ends included: on the example table
  the term "o" followed by a space keeps no row, the term "o" keeps two.
\<close>

theorem filteredData_whitespace:
  "((\<forall>ch \<in> set searchTerm. isWhiteSpace ch)
      \<longrightarrow> filteredData numStr columns searchTerm data = data)
   \<and> ((\<exists>ch \<in> set searchTerm. \<not> isWhiteSpace ch)
      \<longrightarrow> filteredData numStr columns searchTerm data
          = filter (\<lambda>row. \<exists>col \<in> set columns.
                       \<not> nullish (get row (name col))
                       \<and> sublist (toLowerCase searchTerm)
                                 (toLowerCase (String numStr (get row (name col)))))
                   data)
   \<and> filteredData numStr city_columns ''o '' city_rows = []
   \<and> filteredData numStr city_columns ''o'' city_rows
       = [[(''city'', Str ''Oslo'')], [(''city'', Str ''New York'')]]"
proof -
  have a: "filteredData numStr columns searchTerm data = data"
    if "\<forall>ch \<in> set searchTerm. isWhiteSpace ch"
    using that by (simp add: filteredData_def trim_empty_iff)
  have b: "filteredData numStr columns searchTerm data
          = filter (\<lambda>row. \<exists>col \<in> set columns.
                       \<not> nullish (get row (name col))
                       \<and> sublist (toLowerCase searchTerm)
                                 (toLowerCase (String numStr (get row (name col)))))
                   data"
    if "\<exists>ch \<in> set searchTerm. \<not> isWhiteSpace ch"
  proof -
    from that have "trim searchTerm \<noteq> []" by (simp add: trim_empty_iff)
    then show ?thesis
      by (simp add: filteredData_def Let_def list_ex_iff includes'_iff_sublist)
  qed
  have c: "filteredData numStr city_columns ''o '' city_rows = []"
    by (simp add: filteredData_def trim_def isWhiteSpace_def city_columns_def city_rows_def
          get_def toLowerCase_def toLowerChar_def)
  have d: "filteredData numStr city_columns ''o'' city_rows
       = [[(''city'', Str ''Oslo'')], [(''city'', Str ''New York'')]]"
    by (simp add: filteredData_def trim_def isWhiteSpace_def city_columns_def city_rows_def
          get_def toLowerCase_def toLowerChar_def)
  from a b c d show ?thesis by blast
qed

theorem filteredData_whitespace_witness:
  "filteredData (\<lambda>x. []) city_columns ''   '' city_rows = city_rows
   \<and> filteredData (\<lambda>x. []) city_columns ''W Y'' city_rows = [[(''city'', Str ''New York'')]]"
proof -
  have ws: "\<forall>ch \<in> set ''   ''. isWhiteSpace ch"
    by (simp add: isWhiteSpace_def)
  have nws: "\<exists>ch \<in> set ''W Y''. \<not> isWhiteSpace ch"
    by (simp add: isWhiteSpace_def)
  have all: "filteredData (\<lambda>x. []) city_columns ''   '' city_rows = city_rows"
    using ws filteredData_whitespace [of "''   ''" "\<lambda>x. []" city_columns city_rows] by blast
  have "filteredData (\<lambda>x. []) city_columns ''W Y'' city_rows
          = filter (\<lambda>row. \<exists>col \<in> set city_columns.
                       \<not> nullish (get row (name col))
                       \<and> sublist (toLowerCase ''W Y'')
                                 (toLowerCase (String (\<lambda>x. []) (get row (name col)))))
                   city_rows"
    using nws filteredData_whitespace [of "''W Y''" "\<lambda>x. []" city_columns city_rows] by blast
  also have "\<dots> = [[(''city'', Str ''New York'')]]"
    by (simp add: city_columns_def city_rows_def get_def toLowerCase_def toLowerChar_def
          includes'_iff_sublist [symmetric])
  finally show ?thesis using ws nws all by blast
qed

section \<open>Summary statistics: proofs\<close>

lemma length_sumCards: "length (sumCards tls tfx data ms) \<le> 1"
  by (simp add: sumCards_def Let_def split: list.splits)

lemma length_changeCards: "length (changeCards tls tfx data ms) \<le> 1"
  by (simp add: changeCards_def Let_def split: list.splits val.splits)


text \<open>The third step: when it throws, and what it returns when it does not.\<close>

lemma avgCards_throws:
  "spreadTooLong argLimit data columns
   \<Longrightarrow> avgCards argLimit tls tfx data (filter (\<lambda>c. type c = ''measure'') columns) = Inl RangeError"
  by (auto simp: spreadTooLong_def avgCards_def Math_min_def Let_def split: list.splits)

lemma avgCards_returns:
  "\<not> spreadTooLong argLimit data columns
   \<Longrightarrow> \<exists>avgs. avgCards argLimit tls tfx data (filter (\<lambda>c. type c = ''measure'') columns) = Inr avgs
            \<and> length avgs \<le> 1 \<and> filter (\<lambda>c. label c = ''Change'') avgs = []"
  by (auto simp: spreadTooLong_def avgCards_def Math_min_def Math_max_def Let_def
        split: list.splits)

lemma SummaryStats_cards:
  assumes "data \<noteq> []" "columns \<noteq> []" "\<not> spreadTooLong argLimit data columns"
  shows "\<exists>avgs. length avgs \<le> 1 \<and> filter (\<lambda>c. label c = ''Change'') avgs = []
     \<and> SummaryStats argLimit tls tfx data columns =
         Inr (rowCountCard tls data
              # sumCards tls tfx data (filter (\<lambda>c. type c = ''measure'') columns)
              @ avgs
              @ changeCards tls tfx data (filter (\<lambda>c. type c = ''measure'') columns))"
proof -
  let ?ms = "filter (\<lambda>c. type c = ''measure'') columns"
  from avgCards_returns [OF assms(3)] obtain avgs
    where a: "avgCards argLimit tls tfx data ?ms = Inr avgs"
      and l: "length avgs \<le> 1" and f: "filter (\<lambda>c. label c = ''Change'') avgs = []"
    by blast
  have "length (sumCards tls tfx data ?ms @ avgs @ changeCards tls tfx data ?ms) \<le> 3"
    using length_sumCards [of tls tfx data ?ms] l length_changeCards [of tls tfx data ?ms]
    by simp
  then have "take 3 (sumCards tls tfx data ?ms @ avgs @ changeCards tls tfx data ?ms)
      = sumCards tls tfx data ?ms @ avgs @ changeCards tls tfx data ?ms"
    by (rule take_all)
  then have "SummaryStats argLimit tls tfx data columns =
         Inr (rowCountCard tls data # sumCards tls tfx data ?ms @ avgs
              @ changeCards tls tfx data ?ms)"
    using assms(1,2) a by (simp add: SummaryStats_def Let_def slice_def)
  with l f show ?thesis by blast
qed

lemma SummaryStats_throws:
  "data \<noteq> [] \<Longrightarrow> columns \<noteq> [] \<Longrightarrow> spreadTooLong argLimit data columns
   \<Longrightarrow> SummaryStats argLimit tls tfx data columns = Inl RangeError"
  by (simp add: SummaryStats_def Let_def avgCards_throws)


text \<open>
  C1, as the component computes it. With at least one row and at least one column, and
  the second measure column within what the spread can pass, the cards are not empty, there
  are at most four, and the first is the row-count card, its value the number of rows in
  the runtime's number format. With no rows or no columns there are no cards.
\<close>

theorem SummaryStats_row_count_first:
  "(data \<noteq> [] \<and> columns \<noteq> [] \<and> \<not> spreadTooLong argLimit data columns \<longrightarrow>
      (\<exists>cards. SummaryStats argLimit tls tfx data columns = Inr cards
          \<and> cards \<noteq> [] \<and> length cards \<le> 4 \<and> cards ! 0 = rowCountCard tls data
          \<and> label (cards ! 0) = ''Total Rows''
          \<and> value (cards ! 0) = tls None (real (length data))))
   \<and> (data = [] \<or> columns = [] \<longrightarrow> SummaryStats argLimit tls tfx data columns = Inr [])"
proof -
  have a: "SummaryStats argLimit tls tfx data columns = Inr []" if "data = [] \<or> columns = []"
    using that by (auto simp: SummaryStats_def)
  have b: "\<exists>cards. SummaryStats argLimit tls tfx data columns = Inr cards
          \<and> cards \<noteq> [] \<and> length cards \<le> 4 \<and> cards ! 0 = rowCountCard tls data
          \<and> label (cards ! 0) = ''Total Rows''
          \<and> value (cards ! 0) = tls None (real (length data))"
    if h: "data \<noteq> []" "columns \<noteq> []" "\<not> spreadTooLong argLimit data columns"
  proof -
    let ?ms = "filter (\<lambda>c. type c = ''measure'') columns"
    from SummaryStats_cards [OF h] obtain avgs where l: "length avgs \<le> 1"
      and eq: "SummaryStats argLimit tls tfx data columns =
         Inr (rowCountCard tls data # sumCards tls tfx data ?ms @ avgs
              @ changeCards tls tfx data ?ms)"
      by blast
    have "length (sumCards tls tfx data ?ms) + length avgs
            + length (changeCards tls tfx data ?ms) \<le> 3"
      using length_sumCards [of tls tfx data ?ms] l length_changeCards [of tls tfx data ?ms]
      by simp
    then show ?thesis
      by (simp add: eq) (simp add: rowCountCard_def)
  qed
  from a b show ?thesis by blast
qed

theorem SummaryStats_row_count_first_witness:
  "SummaryStats 65535 (\<lambda>d x. ''3'') (\<lambda>n x. [])
      [[(''revenue'', Num 100)], [(''revenue'', Num 200)], [(''revenue'', Num 300)]]
      [\<lparr>name = ''region'', type = ''dimension''\<rparr>]
     = Inr [\<lparr>label = ''Total Rows'', value = ''3'', subValue = None, icon = Hash, trend = None,
             color = ''blue''\<rparr>]"
  using SummaryStats_row_count_first [of
      "[[(''revenue'', Num 100)], [(''revenue'', Num 200)], [(''revenue'', Num 300)]]"
      "[\<lparr>name = ''region'', type = ''dimension''\<rparr>]" 65535 "\<lambda>d x. ''3''" "\<lambda>n x. []"]
  by (simp add: SummaryStats_def sumCards_def avgCards_def changeCards_def rowCountCard_def
        spreadTooLong_def slice_def)

text \<open>
  C1 as stated fails for an empty column list: one row and no column give no card at all.
\<close>

theorem SummaryStats_empty_columns_counterexample:
  "SummaryStats 65535 (\<lambda>d x. []) (\<lambda>n x. []) [[(''revenue'', Num 100)]] [] = Inr []"
  by (simp add: SummaryStats_def)




section \<open>Export: proofs\<close>

lemma includes'_single: "includes' s [c] \<longleftrightarrow> c \<in> set s"
  by (induction s) auto

lemma needs_quoting_iff:
  "needs_quoting s \<longleftrightarrow> includes' s comma \<or> includes' s dquote \<or> includes' s newline"
  by (simp add: needs_quoting_def comma_def dquote_def newline_def includes'_single)

lemma unquote_double_quotes: "unquote (double_quotes s @ dquote) = s"
proof (induction s)
  case Nil
  show ?case by (simp add: double_quotes_def dquote_def)
next
  case (Cons c s)
  show ?case
  proof (cases "[c] = dquote")
    case True
    then show ?thesis using Cons by (simp add: double_quotes_def dquote_def)
  next
    case False
    obtain d ds where "double_quotes s @ dquote = d # ds"
      by (cases "double_quotes s @ dquote") (simp_all add: dquote_def)
    with False Cons show ?thesis
      by (simp add: double_quotes_def dquote_def)
  qed
qed

lemma csvCell_spec:
  assumes "\<forall>x. \<not> needs_quoting (numStr x)"
  shows "csvCell numStr v = spec_csv_field numStr v"
  using assms
  by (cases v) (simp_all add: csvCell_def spec_csv_field_def needs_quoting_iff Let_def)

lemma read_csvCell:
  assumes "\<forall>x. \<not> needs_quoting (numStr x)"
  shows "read_csv_field (csvCell numStr v) = (if nullish v then [] else String numStr v)"
proof (cases v)
  case (Num x)
  from assms have "\<not> needs_quoting (numStr x)" by simp
  then have "numStr x = [] \<or> (\<exists>c cs. numStr x = c # cs \<and> [c] \<noteq> dquote)"
    by (cases "numStr x") (auto simp: needs_quoting_def dquote_def)
  then show ?thesis using Num
    by (auto simp: csvCell_def read_csv_field_def)
next
  case (Str s)
  show ?thesis
  proof (cases "needs_quoting s")
    case True
    have "read_csv_field (dquote @ double_quotes s @ dquote) = unquote (double_quotes s @ dquote)"
      by (simp add: read_csv_field_def dquote_def)
    with True show ?thesis using Str
      by (simp add: csvCell_def needs_quoting_iff [symmetric] unquote_double_quotes)
  next
    case False
    then have "s = [] \<or> (\<exists>c cs. s = c # cs \<and> [c] \<noteq> dquote)"
      by (cases s) (auto simp: needs_quoting_def dquote_def)
    with False show ?thesis using Str
      by (auto simp: csvCell_def read_csv_field_def needs_quoting_iff [symmetric])
  qed
qed (simp_all add: csvCell_def read_csv_field_def)

text \<open>
  C6. The CSV export is the header line, the column names joined by commas, followed by
  one line per row, the lines joined by newlines; each line joins, per column, the cell:
  empty for null and undefined, otherwise the value's string form, wrapped in double
  quotes with the inner double quotes doubled when that form contains a comma, a double
  quote or a newline. Reading a cell back gives the string form again. The code quotes
  strings only; the text of a number (digits, sign, point, exponent) never contains one
  of the three characters, which is the hypothesis on \<open>numStr\<close>.
\<close>

theorem exportCSV_format:
  "(\<forall>x. \<not> needs_quoting (numStr x)) \<longrightarrow>
     fst (exportCSV numStr filename columns data)
       = join newline
           (join comma (map name columns)
              # map (\<lambda>row. join comma (map (\<lambda>c. spec_csv_field numStr (get row (name c))) columns))
                    data)
     \<and> (\<forall>v. read_csv_field (csvCell numStr v) = (if nullish v then [] else String numStr v))
     \<and> csvCell numStr (Str acme) = dquote @ ''Acme, '' @ dquote @ dquote @ ''Inc.'' @ dquote @ dquote @ dquote
     \<and> read_csv_field (csvCell numStr (Str acme)) = acme"
proof
  assume plain: "\<forall>x. \<not> needs_quoting (numStr x)"
  have cells: "(\<lambda>h. csvCell numStr (get row h)) = (\<lambda>h. spec_csv_field numStr (get row h))" for row
    using csvCell_spec [OF plain] by simp
  have a: "fst (exportCSV numStr filename columns data)
       = join newline
           (join comma (map name columns)
              # map (\<lambda>row. join comma (map (\<lambda>c. spec_csv_field numStr (get row (name c))) columns))
                    data)"
    by (simp add: exportCSV_def csvContent_def Let_def cells comp_def)
  have b: "\<forall>v. read_csv_field (csvCell numStr v) = (if nullish v then [] else String numStr v)"
    using read_csvCell [OF plain] by simp
  have c: "csvCell numStr (Str acme)
             = dquote @ ''Acme, '' @ dquote @ dquote @ ''Inc.'' @ dquote @ dquote @ dquote"
    by (simp add: csvCell_def acme_def dquote_def comma_def newline_def double_quotes_def)
  have d: "read_csv_field (csvCell numStr (Str acme)) = acme"
    using b by simp
  from a b c d show "fst (exportCSV numStr filename columns data)
       = join newline
           (join comma (map name columns)
              # map (\<lambda>row. join comma (map (\<lambda>c. spec_csv_field numStr (get row (name c))) columns))
                    data)
     \<and> (\<forall>v. read_csv_field (csvCell numStr v) = (if nullish v then [] else String numStr v))
     \<and> csvCell numStr (Str acme) = dquote @ ''Acme, '' @ dquote @ dquote @ ''Inc.'' @ dquote @ dquote @ dquote
     \<and> read_csv_field (csvCell numStr (Str acme)) = acme"
    by blast
qed

theorem exportCSV_format_witness:
  "(\<forall>x::real. \<not> needs_quoting ''7'')
   \<and> fst (exportCSV (\<lambda>x. ''7'') ''export''
          [\<lparr>name = ''company'', type = ''dimension''\<rparr>, \<lparr>name = ''sales'', type = ''measure''\<rparr>]
          [[(''company'', Str acme), (''sales'', Num 7)], [(''company'', Null)]])
       = ''company,sales'' @ newline
         @ dquote @ ''Acme, '' @ dquote @ dquote @ ''Inc.'' @ dquote @ dquote @ dquote @ '',7''
         @ newline @ '',''
   \<and> read_csv_field (csvCell (\<lambda>x. ''7'') (Str acme)) = acme"
proof -
  have plain: "\<forall>x::real. \<not> needs_quoting ((\<lambda>x. ''7'') x)"
    by (simp add: needs_quoting_def)
  from exportCSV_format [of "\<lambda>x. ''7''" "''export''"
      "[\<lparr>name = ''company'', type = ''dimension''\<rparr>, \<lparr>name = ''sales'', type = ''measure''\<rparr>]"
      "[[(''company'', Str acme), (''sales'', Num 7)], [(''company'', Null)]]"] plain
  show ?thesis
    by (simp add: spec_csv_field_def get_def needs_quoting_def acme_def dquote_def comma_def
          read_csv_field_def
          newline_def double_quotes_def)
qed


lemma sublist_wrap:
  assumes "sublist x y"
  shows "sublist x (p @ y @ s)"
proof -
  from assms obtain a b where "y = a @ x @ b"
    by (auto simp: sublist_def)
  then have "p @ y @ s = (p @ a) @ x @ (b @ s)" by simp
  then show ?thesis unfolding sublist_def by blast
qed

lemma sublist_join:
  "x \<in> set xs \<Longrightarrow> sublist x (join sep xs)"
proof (induction sep xs rule: join.induct)
  case (1 sep)
  then show ?case by simp
next
  case (2 sep y)
  then show ?case by simp
next
  case (3 sep y z zs)
  show ?case
  proof (cases "x = y")
    case True
    then show ?thesis by simp
  next
    case False
    with 3 have "sublist x (join sep (z # zs))" by simp
    then have "sublist x ((y @ sep) @ join sep (z # zs) @ [])"
      by (rule sublist_wrap)
    then show ?thesis by simp
  qed
qed

lemma jsonMember_in_object:
  assumes "(k, v) \<in> set r" "v \<noteq> Undefined"
  shows "sublist (jsonMember numStr k v) (jsonObject numStr r)"
proof -
  have mem: "jsonMember numStr k v \<in> set (jsonMembers numStr r)"
    using assms by (force simp: jsonMembers_def)
  then have ne: "jsonMembers numStr r \<noteq> []" by auto
  let ?j = "join ('','' @ newline @ ''    '') (jsonMembers numStr r)"
  have "sublist (jsonMember numStr k v) ?j"
    using mem by (rule sublist_join)
  then have "sublist (jsonMember numStr k v) ((''{'' @ newline @ ''    '') @ ?j @ (newline @ ''  '' @ ''}''))"
    by (rule sublist_wrap)
  then show ?thesis
    using ne by (simp add: jsonObject_def Let_def)
qed

lemma jsonObject_in_content:
  assumes "r \<in> set data"
  shows "sublist (jsonObject numStr r) (jsonContent numStr data)"
proof -
  let ?j = "join ('','' @ newline @ ''  '') (map (jsonObject numStr) data)"
  have "sublist (jsonObject numStr r) ?j"
    using assms by (intro sublist_join) simp
  then have "sublist (jsonObject numStr r) ((''['' @ newline @ ''  '') @ ?j @ (newline @ '']''))"
    by (rule sublist_wrap)
  moreover have "data \<noteq> []" using assms by auto
  ultimately show ?thesis
    by (simp add: jsonContent_def)
qed

text \<open>
  C8, as the component computes it. The JSON export is the indented serialization of the
  row objects as they are, whatever the column list: every property of every row, unless
  its value is undefined, is in the text as a member, quoted key, colon, value.
\<close>

theorem exportJSON_whole_rows:
  "exportJSON numStr filename columns data = exportJSON numStr filename [] data
   \<and> (\<forall>r \<in> set data. \<forall>(k, v) \<in> set r.
         v \<noteq> Undefined \<longrightarrow>
         sublist (jsonQuote k @ '': '' @ jsonValue numStr v) (fst (exportJSON numStr filename columns data)))"
proof -
  have "sublist (jsonMember numStr k v) (jsonContent numStr data)"
    if "r \<in> set data" "(k, v) \<in> set r" "v \<noteq> Undefined" for r k v
    using jsonMember_in_object [OF that(2,3)] jsonObject_in_content [OF that(1)]
    by (rule sublist_order.order_trans)
  then show ?thesis
    by (auto simp: exportJSON_def jsonMember_def)
qed

theorem exportJSON_whole_rows_witness:
  "sublist (dquote @ ''secret'' @ dquote @ '': '' @ dquote @ ''y'' @ dquote)
     (fst (exportJSON (\<lambda>x. []) ''export'' [\<lparr>name = ''a'', type = ''dimension''\<rparr>]
             [[(''a'', Str ''x''), (''secret'', Str ''y'')]]))"
proof -
  have "\<forall>r \<in> set [[(''a'', Str ''x''), (''secret'', Str ''y'')]]. \<forall>(k, v) \<in> set r.
         v \<noteq> Undefined \<longrightarrow>
         sublist (jsonQuote k @ '': '' @ jsonValue (\<lambda>x. []) v)
           (fst (exportJSON (\<lambda>x. []) ''export'' [\<lparr>name = ''a'', type = ''dimension''\<rparr>]
             [[(''a'', Str ''x''), (''secret'', Str ''y'')]]))"
    using exportJSON_whole_rows [of "\<lambda>x. []" "''export''" "[\<lparr>name = ''a'', type = ''dimension''\<rparr>]"
          "[[(''a'', Str ''x''), (''secret'', Str ''y'')]]"] by blast
  then have "sublist (jsonQuote ''secret'' @ '': '' @ jsonValue (\<lambda>x. []) (Str ''y''))
           (fst (exportJSON (\<lambda>x. []) ''export'' [\<lparr>name = ''a'', type = ''dimension''\<rparr>]
             [[(''a'', Str ''x''), (''secret'', Str ''y'')]]))"
    by simp
  moreover have "jsonQuote ''secret'' @ '': '' @ jsonValue (\<lambda>x. []) (Str ''y'')
      = dquote @ ''secret'' @ dquote @ '': '' @ dquote @ ''y'' @ dquote"
    by (simp add: jsonQuote_def jsonQuoteChar_def)
  ultimately show ?thesis by simp
qed


text \<open>
  C8 as stated fails for a row with a key that is not a declared column: the key is
  exported with the rest.
\<close>

theorem exportJSON_undeclared_key_counterexample:
  "''secret'' \<notin> set (map name [\<lparr>name = ''a'', type = ''dimension''\<rparr>])
   \<and> fst (exportJSON (\<lambda>x. []) ''export'' [\<lparr>name = ''a'', type = ''dimension''\<rparr>]
             [[(''a'', Str ''x''), (''secret'', Str ''y'')]])
       = ''['' @ newline
         @ ''  {'' @ newline
         @ ''    '' @ dquote @ ''a'' @ dquote @ '': '' @ dquote @ ''x'' @ dquote @ '','' @ newline
         @ ''    '' @ dquote @ ''secret'' @ dquote @ '': '' @ dquote @ ''y'' @ dquote @ newline
         @ ''  }'' @ newline
         @ '']''"
  by (simp add: exportJSON_def jsonContent_def jsonObject_def jsonMembers_def jsonMember_def
        jsonQuote_def jsonQuoteChar_def dquote_def newline_def)

section \<open>Query history ledger: hydration proofs\<close>

text \<open>
  Where hydration recovers: nothing stored, the empty text, and a text on which
  \<^verbatim>\<open>JSON.parse\<close> throws all give the empty ledger; a text that parses to an array gives
  that array.
\<close>

lemma hydrate_cases:
  "hydrate JSON_parse None = JArr []
   \<and> hydrate JSON_parse (Some []) = JArr []
   \<and> (JSON_parse s = None \<longrightarrow> hydrate JSON_parse (Some s) = JArr [])
   \<and> (s \<noteq> [] \<and> JSON_parse s = Some (JArr entries) \<longrightarrow> hydrate JSON_parse (Some s) = JArr entries)"
  by (simp add: hydrate_def)

text \<open>
  C9 asks for the empty ledger, and no error, for every stored text that is not a
  well-formed array. The stored text \<^verbatim>\<open>null\<close> is JSON: \<^verbatim>\<open>JSON.parse\<close> returns the value
  \<^verbatim>\<open>null\<close> and nothing is thrown, so nothing is caught. Hydration makes that value the
  history, not the empty array, and the component's test of \<^verbatim>\<open>history.length\<close> throws.
\<close>

theorem hydrate_parsed_null:
  "JSON_parse ''null'' = Some JNull \<longrightarrow>
     hydrate JSON_parse (Some ''null'') = JNull
     \<and> hydrate JSON_parse (Some ''null'') \<noteq> JArr []
     \<and> historyIsEmpty (hydrate JSON_parse (Some ''null'')) = Inl TypeError"
  by (simp add: hydrate_def historyIsEmpty_def)

theorem hydrate_parsed_null_witness:
  "(\<lambda>t. if t = ''null'' then Some JNull else None) ''null'' = Some JNull
   \<and> hydrate (\<lambda>t. if t = ''null'' then Some JNull else None) (Some ''null'') = JNull
   \<and> historyIsEmpty (hydrate (\<lambda>t. if t = ''null'' then Some JNull else None) (Some ''null''))
       = Inl TypeError"
  using hydrate_parsed_null [of "\<lambda>t. if t = ''null'' then Some JNull else None"]
  by (simp add: historyIsEmpty_def)

end
